theory Spec2Isabelle
  imports Complex_Main "HOL-Library.Multiset"
begin

section \<open>Duty-log aggregation and rendering of the HOS planner front end\<close>

text \<open>
  The front end receives the days of a trip as JSON. Every activity carries a status
  string and two ISO-8601 instants. The components read an instant with
  \<^verbatim>\<open>new Date(a.start)\<close>; the model keeps the value of that Date, the number of
  milliseconds since the epoch, as an \<^typ>\<open>int\<close> (so the model covers the activities
  whose instants parse). A JavaScript number is an IEEE-754 double. The aggregation is
  embedded twice: with exact sums and quotients in \<^typ>\<open>real\<close>, which is what the code
  computes as long as no operation rounds, and with every operation rounded to the
  nearest double, which is what the code computes always.
\<close>

subsection \<open>Data\<close>

type_synonym timestamp = int

record activity =
  a_status :: string
  a_start :: timestamp
  a_end :: timestamp

record day =
  date :: string
  activities :: "activity list"

subsection \<open>Per-day aggregation\<close>

text \<open>
  \<^verbatim>\<open>calcHours\<close> of DaySummarySidebar.js: keep the activities whose status is the one
  asked for, then \<^verbatim>\<open>reduce\<close> from 0, adding \<^verbatim>\<open>(e - s) / 3600000\<close>. Here in exact
  arithmetic; \<open>calcHours_double\<close> below is the same function with every operation
  rounded, and the two agree whenever no operation rounds.
\<close>

definition calcHours :: "activity list \<Rightarrow> string \<Rightarrow> real" where
  "calcHours acts st =
     foldl (\<lambda>sum a. let s = a_start a; e = a_end a in sum + real_of_int (e - s) / 3600000)
       0 (filter (\<lambda>a. a_status a = st) acts)"

text \<open>
  \<^verbatim>\<open>calcTotalHours\<close> of the LogCanvas component: the same pipeline, written without
  the two local constants.
\<close>

definition calcTotalHours :: "activity list \<Rightarrow> string \<Rightarrow> real" where
  "calcTotalHours acts st =
     foldl (\<lambda>sum a. sum + real_of_int (a_end a - a_start a) / 3600000)
       0 (filter (\<lambda>a. a_status a = st) acts)"

text \<open>
  The specification's \<open>durationHours\<close>: the length of one interval, \<open>end - start\<close>,
  in hours. It is the comparison side of the aggregation theorems.
\<close>

definition durationHours :: "activity \<Rightarrow> real" where
  "durationHours a = real_of_int (a_end a - a_start a) / 3600000"

subsection \<open>Double precision\<close>

text \<open>
  The binary exponent of a positive number: the \<open>k\<close> with \<open>2^k \<le> x < 2^(k+1)\<close>,
  found by halving or doubling until the number lies between 1 and 2.
\<close>

function ilog2 :: "real \<Rightarrow> int" where
  "ilog2 x =
     (if 2 \<le> x then ilog2 (x / 2) + 1
      else if 0 < x \<and> x < 1 then ilog2 (x * 2) - 1
      else 0)"
  by pat_completeness auto
termination
proof (relation "measure (\<lambda>x. if 1 \<le> x then nat \<lfloor>x\<rfloor> else nat \<lceil>1 / x\<rceil>)")
  show "wf (measure (\<lambda>x::real. if 1 \<le> x then nat \<lfloor>x\<rfloor> else nat \<lceil>1 / x\<rceil>))"
    by simp
next
  fix x :: real
  assume x: "2 \<le> x"
  have "real_of_int \<lfloor>x / 2\<rfloor> \<le> x / 2"
    by (rule of_int_floor_le)
  moreover have "x - 1 < real_of_int \<lfloor>x\<rfloor>"
    by linarith
  ultimately have "real_of_int \<lfloor>x / 2\<rfloor> < real_of_int \<lfloor>x\<rfloor>"
    using x by linarith
  then have "\<lfloor>x / 2\<rfloor> < \<lfloor>x\<rfloor>"
    by simp
  moreover have "0 \<le> \<lfloor>x / 2\<rfloor>"
    using x by simp
  ultimately show "(x / 2, x) \<in> measure (\<lambda>x. if 1 \<le> x then nat \<lfloor>x\<rfloor> else nat \<lceil>1 / x\<rceil>)"
    using x by simp
next
  fix x :: real
  assume "\<not> 2 \<le> x" and x: "0 < x \<and> x < 1"
  have inv: "1 < 1 / x"
    using x by simp
  show "(x * 2, x) \<in> measure (\<lambda>x. if 1 \<le> x then nat \<lfloor>x\<rfloor> else nat \<lceil>1 / x\<rceil>)"
  proof (cases "1 \<le> x * 2")
    case True
    have "\<lfloor>x * 2\<rfloor> = 1"
      using True x by linarith
    moreover have "2 \<le> \<lceil>1 / x\<rceil>"
      using inv by linarith
    ultimately show ?thesis
      using True x by simp
  next
    case False
    then have big: "2 < 1 / x"
      using x by (simp add: field_simps)
    have "1 / (x * 2) = (1 / x) / 2"
      by simp
    moreover have "real_of_int \<lceil>(1 / x) / 2\<rceil> < (1 / x) / 2 + 1"
      by linarith
    moreover have "1 / x \<le> real_of_int \<lceil>1 / x\<rceil>"
      by linarith
    ultimately have "real_of_int \<lceil>1 / (x * 2)\<rceil> < real_of_int \<lceil>1 / x\<rceil>"
      using big by linarith
    then have "\<lceil>1 / (x * 2)\<rceil> < \<lceil>1 / x\<rceil>"
      by simp
    moreover have "0 < \<lceil>1 / x\<rceil>"
      using inv by linarith
    ultimately show ?thesis
      using False x by simp
  qed
qed

declare ilog2.simps [simp del]

definition pow2 :: "int \<Rightarrow> real" where
  "pow2 e = (if 0 \<le> e then 2 ^ nat e else 1 / 2 ^ nat (- e))"

text \<open>The nearest integer, the even one of two that are equally near.\<close>

definition roundTiesToEven :: "real \<Rightarrow> int" where
  "roundTiesToEven r =
     (let f = \<lfloor>r\<rfloor>; d = r - real_of_int f
      in if d < 1 / 2 then f
         else if 1 / 2 < d then f + 1
         else if even f then f else f + 1)"

text \<open>
  The double nearest to a real number (IEEE-754 binary64, round to nearest, ties to
  even): 53 significant bits, and a fixed step of \<open>2^-1074\<close> below the normal range.
  Overflow to \<^verbatim>\<open>Infinity\<close>, beyond \<open>2^1024\<close>, is not modelled; hours never get there.
\<close>

definition double :: "real \<Rightarrow> real" where
  "double x =
     (if x = 0 then 0
      else let e = max (ilog2 \<bar>x\<bar> - 52) (- 1074)
           in real_of_int (roundTiesToEven (x / pow2 e)) * pow2 e)"

text \<open>
  \<^verbatim>\<open>calcHours\<close> and \<^verbatim>\<open>calcTotalHours\<close> as the engine runs them: the difference of the
  two time values, its quotient by 3600000 and the sum with the accumulator are each
  rounded to a double.
\<close>

definition calcHours_double :: "activity list \<Rightarrow> string \<Rightarrow> real" where
  "calcHours_double acts st =
     foldl (\<lambda>sum a. let s = a_start a; e = a_end a
                     in double (sum + double (double (real_of_int (e - s)) / 3600000)))
       0 (filter (\<lambda>a. a_status a = st) acts)"


text \<open>
  No step of the reduce rounds, started from the accumulator \<open>acc\<close>: for every activity
  in turn the difference, the quotient and the new sum are doubles already.
\<close>

fun noRounding :: "real \<Rightarrow> activity list \<Rightarrow> bool" where
  "noRounding acc [] = True"
| "noRounding acc (a # as) =
     (let d = real_of_int (a_end a - a_start a); h = d / 3600000
      in double d = d \<and> double h = h \<and> double (acc + h) = acc + h
         \<and> noRounding (acc + h) as)"

subsection \<open>Trip-level cycle hours\<close>


text \<open>
  The specification's \<open>AggregatedTotals\<close> (section 3): one figure per status.
\<close>

record AggregatedTotals =
  driveHours :: real
  onDutyHours :: real
  offDutyHours :: real
  sleeperHours :: real



subsection \<open>Compliance summary\<close>

text \<open>
  Modelled from the spec: \<open>evaluate(tripTotals, windowDays)\<close> of section 4.4. The
  warnings reach the front end ready-made in \<^verbatim>\<open>trip_summary.warnings\<close>; the code that
  produces them belongs to the planning back end, which is not among the sources.
\<close>

definition evaluate :: "AggregatedTotals \<Rightarrow> nat \<Rightarrow> string list" where
  "evaluate tripTotals windowDays =
     (if driveHours tripTotals + onDutyHours tripTotals > 70
      then [''Exceeds 70-hour/8-day on-duty limit''] else [])"

text \<open>
  The ComplianceSummary component. The warning box is rendered when
  \<^verbatim>\<open>warnings?.length > 0\<close>, with one list item per warning, in order; \<open>None\<close> is
  "nothing rendered". The drive bar is coloured from the total drive hours alone.
\<close>

definition warningBox :: "string list \<Rightarrow> string list option" where
  "warningBox warnings = (if length warnings > 0 then Some (map (\<lambda>w. w) warnings) else None)"

definition driveBarColor :: "real \<Rightarrow> string" where
  "driveBarColor totalDrive =
     (if totalDrive > 70 then ''#ff3333''
      else if totalDrive > 60 then ''#ffc107''
      else ''#4caf50'')"

subsection \<open>Drawing a day on the log sheet\<close>

text \<open>
  The two lookup tables of the LogCanvas component, with the four keys they define.
\<close>

definition colors :: "(string \<times> string) list" where
  "colors = [(''OffDuty'', ''#66cc66''), (''Sleeper'', ''#9966ff''),
             (''Driving'', ''#1E90FF''), (''OnDuty'', ''#FFA500'')]"

definition statusY :: "(string \<times> real) list" where
  "statusY = [(''OffDuty'', 162), (''Sleeper'', 122), (''Driving'', 84), (''OnDuty'', 46)]"

text \<open>The four status names: the keys of both tables.\<close>

definition canonicalStatuses :: "string list" where
  "canonicalStatuses = [''OffDuty'', ''Sleeper'', ''Driving'', ''OnDuty'']"

text \<open>
  \<^verbatim>\<open>getUTCHours\<close> and \<^verbatim>\<open>getUTCMinutes\<close> of a Date, from its milliseconds: ECMAScript
  takes the floor of the quotient and a non-negative remainder, as \<open>div\<close> and \<open>mod\<close> on
  \<^typ>\<open>int\<close> do.
\<close>

definition getUTCHours :: "timestamp \<Rightarrow> int" where
  "getUTCHours t = (t div 3600000) mod 24"

definition getUTCMinutes :: "timestamp \<Rightarrow> int" where
  "getUTCMinutes t = (t div 60000) mod 60"

text \<open>
  The hour of the day as \<^verbatim>\<open>drawCanvas\<close> computes it for both ends of an activity:
  \<^verbatim>\<open>d.getUTCHours() + d.getUTCMinutes() / 60\<close>.
\<close>

definition hourOfDayUTC :: "timestamp \<Rightarrow> real" where
  "hourOfDayUTC t = real_of_int (getUTCHours t) + real_of_int (getUTCMinutes t) / 60"

record image =
  naturalWidth :: real
  naturalHeight :: real

text \<open>
  Reading \<^verbatim>\<open>table[key]\<close> from an object literal gives the table's own entry, or, for
  a key the table does not define, the member of that name which every object inherits
  from \<^verbatim>\<open>Object.prototype\<close> (a function, or the prototype itself for \<^verbatim>\<open>__proto__\<close>),
  or \<^verbatim>\<open>undefined\<close>. An inherited member is truthy and is neither a number nor a
  string.
\<close>

datatype 'a lookup = Undefined | Own 'a | Inherited

definition objectPrototypeKeys :: "string list" where
  "objectPrototypeKeys =
     [''constructor'', ''__proto__'', ''hasOwnProperty'', ''isPrototypeOf'',
      ''propertyIsEnumerable'', ''toLocaleString'', ''toString'', ''valueOf'',
      ''__defineGetter__'', ''__defineSetter__'', ''__lookupGetter__'', ''__lookupSetter__'']"

definition getProp :: "(string \<times> 'a) list \<Rightarrow> string \<Rightarrow> 'a lookup" where
  "getProp table key =
     (case map_of table key of
        Some v \<Rightarrow> Own v
      | None \<Rightarrow> if key \<in> set objectPrototypeKeys then Inherited else Undefined)"

text \<open>
  One stroked path: \<^verbatim>\<open>strokeStyle\<close>, \<^verbatim>\<open>lineWidth\<close>, \<^verbatim>\<open>beginPath\<close>, \<^verbatim>\<open>moveTo\<close>,
  \<^verbatim>\<open>lineTo\<close>, \<^verbatim>\<open>stroke\<close>. A drawing is what \<^verbatim>\<open>drawCanvas\<close> issues to the 2D
  context, in order: the cleared rectangle, the background image, the strokes.
  The value assigned to \<^verbatim>\<open>ctx.strokeStyle\<close> is a colour string, or an inherited member,
  which is no colour. A height is \<open>None\<close> when it is \<^verbatim>\<open>NaN\<close>, the product of an
  inherited member and the scale.
\<close>

datatype style = Colour string | Member

record stroke =
  strokeStyle :: style
  lineWidth :: real
  moveTo :: "real \<times> real option"
  lineTo :: "real \<times> real option"

record drawing =
  clearRect :: "real \<times> real \<times> real \<times> real"
  drawImage :: "real \<times> real \<times> real \<times> real"
  strokes :: "stroke list"

text \<open>
  The body of the \<^verbatim>\<open>forEach\<close> in \<^verbatim>\<open>drawCanvas\<close>. \<^verbatim>\<open>statusY[a.status] || statusY.OffDuty\<close>
  falls back to the OffDuty row when the lookup is \<^verbatim>\<open>undefined\<close> (or 0), and
  \<^verbatim>\<open>colors[a.status] || "#000"\<close> to black when the lookup is \<^verbatim>\<open>undefined\<close> (or empty).
  An inherited member is truthy, so no fallback is taken for it: the height is the
  member times the scale, \<^verbatim>\<open>NaN\<close>, and the member itself is assigned to the stroke style.
\<close>

definition drawActivity :: "real \<Rightarrow> real \<Rightarrow> activity \<Rightarrow> stroke" where
  "drawActivity width scaleY a =
     (let startHours = hourOfDayUTC (a_start a);
          endHours = hourOfDayUTC (a_end a);
          xStart = (startHours / 24) * width;
          xEnd = (endHours / 24) * width;
          y = (case getProp statusY (a_status a) of
                 Own v \<Rightarrow> Some ((if v \<noteq> 0 then v else 162) * scaleY)
               | Inherited \<Rightarrow> None
               | Undefined \<Rightarrow> Some (162 * scaleY))
      in \<lparr>strokeStyle = (case getProp colors (a_status a) of
                           Own c \<Rightarrow> if c \<noteq> [] then Colour c else Colour ''#000''
                         | Inherited \<Rightarrow> Member
                         | Undefined \<Rightarrow> Colour ''#000''),
          lineWidth = 5,
          moveTo = (xStart, y),
          lineTo = (xEnd, y)\<rparr>)"

text \<open>
  \<^verbatim>\<open>drawCanvas(ctx, dayActivities, bgImage)\<close> of the LogCanvas component. The image is
  the blank log sheet, drawn once it has loaded, so its natural sizes are positive (a
  division by 0 is \<^verbatim>\<open>NaN\<close> or \<^verbatim>\<open>Infinity\<close> in JavaScript and 0 here).
\<close>

definition drawCanvas :: "activity list \<Rightarrow> image \<Rightarrow> drawing" where
  "drawCanvas dayActivities bgImage =
     (let width = 1000;
          height = (naturalHeight bgImage / naturalWidth bgImage) * width;
          scaleY = height / naturalHeight bgImage
      in \<lparr>clearRect = (0, 0, width, height),
          drawImage = (0, 0, width, height),
          strokes = map (drawActivity width scaleY) dayActivities\<rparr>)"

text \<open>
  An interval as the specification's grid sees it: the pair of columns of a stroke, its
  two x-coordinates taken back from pixels (1000 wide) to hours (24 wide).
\<close>

definition columns :: "stroke \<Rightarrow> real \<times> real" where
  "columns s = (fst (moveTo s) * 24 / 1000, fst (lineTo s) * 24 / 1000)"

text \<open>The lane of a stroke: the height at which it starts.\<close>

definition lane :: "stroke \<Rightarrow> real option" where
  "lane s = snd (moveTo s)"

subsection \<open>The report\<close>

text \<open>
  The specification's \<open>Page\<close> and \<open>Report\<close> (section 3).
\<close>

record page =
  p_day :: day
  grid :: "stroke list"
  totals :: AggregatedTotals

record report =
  pages :: "page list"
  tripTotals :: AggregatedTotals
  warnings :: "string list"


subsection \<open>Presentation: one decimal place\<close>

text \<open>
  \<^verbatim>\<open>Number.prototype.toFixed(1)\<close> for a finite number below \<open>10^21\<close>: the sign, then the
  integer \<open>n\<close> nearest to ten times the magnitude (the larger one on a tie), written in
  decimal with a point before its last digit, and a leading 0 when it has one digit.
\<close>

fun digits :: "nat \<Rightarrow> string" where
  "digits n =
     (if n < 10 then [''0123456789'' ! n]
      else digits (n div 10) @ [''0123456789'' ! (n mod 10)])"

declare digits.simps [simp del]

definition toFixed1 :: "real \<Rightarrow> string" where
  "toFixed1 x =
     (let s = (if x < 0 then ''-'' else []);
          n = nat \<lfloor>\<bar>x\<bar> * 10 + 1 / 2\<rfloor>;
          m = digits n;
          m = (if length m \<le> 1 then ''0'' @ m else m)
      in s @ butlast m @ ''.'' @ [last m])"

subsection \<open>The PDF export\<close>

text \<open>
  The calls \<^verbatim>\<open>handleDownloadPDF\<close> makes on the jsPDF document, as data. A document is
  the pages already left behind and the page being written; a new document has one blank
  page, and \<^verbatim>\<open>addPage\<close> starts the next one.
\<close>

datatype 'img pdf_cmd =
    SetFontSize real
  | Text string real real
  | TextCentered string real real
  | AddImage 'img real real real real
  | Line real real real real

record 'img pdf =
  finished :: "'img pdf_cmd list list"
  current :: "'img pdf_cmd list"

definition jsPDF :: "'img pdf" where
  "jsPDF = \<lparr>finished = [], current = []\<rparr>"

definition addPage :: "'img pdf \<Rightarrow> 'img pdf" where
  "addPage p = \<lparr>finished = finished p @ [current p], current = []\<rparr>"

definition emit :: "'img pdf \<Rightarrow> 'img pdf_cmd \<Rightarrow> 'img pdf" where
  "emit p c = p\<lparr>current := current p @ [c]\<rparr>"

definition pagesOf :: "'img pdf \<Rightarrow> 'img pdf_cmd list list" where
  "pagesOf p = finished p @ [current p]"

text \<open>
  What the export reads from outside the component: the canvas element of a day
  (\<^verbatim>\<open>document.getElementById\<close>, \<open>None\<close> for \<^verbatim>\<open>null\<close>) with its size and the picture
  \<^verbatim>\<open>html2canvas\<close> takes of it, and the driver's data, where a field may be missing.
\<close>

record 'img canvas =
  c_width :: real
  c_height :: real
  c_picture :: 'img

record driverInfo =
  di_name :: "string option"
  di_company :: "string option"

text \<open>The three per-day figures of the summary line, as the export prints them.\<close>

definition driveHrs :: "day \<Rightarrow> string" where
  "driveHrs d = toFixed1 (calcTotalHours (activities d) ''Driving'')"

definition onDutyHrs :: "day \<Rightarrow> string" where
  "onDutyHrs d = toFixed1 (calcTotalHours (activities d) ''OnDuty'')"

definition offDutyHrs :: "day \<Rightarrow> string" where
  "offDutyHrs d = toFixed1 (calcTotalHours (activities d) ''OffDuty'')"

text \<open>
  The calls of one pass of the loop after the page has been chosen: header, picture,
  summary, signature line and the line with the time of the export. \<open>pageWidth\<close> is
  \<^verbatim>\<open>pdf.internal.pageSize.getWidth()\<close> and \<open>currentDate\<close> is
  \<^verbatim>\<open>new Date().toLocaleString()\<close>, read once before the loop.
\<close>

definition sheet ::
  "real \<Rightarrow> driverInfo \<Rightarrow> string \<Rightarrow> day \<Rightarrow> 'img canvas \<Rightarrow> 'img pdf_cmd list" where
  "sheet pageWidth info currentDate d cv =
     (let pageHeight = (c_height cv / c_width cv) * pageWidth
      in [SetFontSize 14,
          TextCentered ''FMCSA DRIVER DAILY LOG SHEET'' (pageWidth / 2) 30,
          SetFontSize 10,
          Text (''Driver: '' @ (case di_name info of Some n \<Rightarrow> n | None \<Rightarrow> [])) 20 50,
          Text (''Company: '' @ (case di_company info of Some c \<Rightarrow> c | None \<Rightarrow> [])) 20 65,
          Text (''Date: '' @ date d) 20 80,
          AddImage (c_picture cv) 0 100 pageWidth pageHeight,
          Text (''Driving Hours: '' @ driveHrs d @ '' hrs'') 20 (110 + pageHeight + 10),
          Text (''On Duty: '' @ onDutyHrs d @ '' hrs'') 220 (110 + pageHeight + 10),
          Text (''Off Duty: '' @ offDutyHrs d @ '' hrs'') 420 (110 + pageHeight + 10),
          Line 20 (130 + pageHeight) 220 (130 + pageHeight),
          Text ''Driver Signature'' 20 (145 + pageHeight),
          SetFontSize 8,
          Text (''Generated: '' @ currentDate) (pageWidth - 160) (145 + pageHeight)])"

text \<open>
  The loop \<^verbatim>\<open>for (let i = 0; i < logDays.length; i++)\<close>, on the days from index \<open>i\<close>
  on: a day whose canvas is missing is skipped (\<^verbatim>\<open>continue\<close>); every day but the first
  starts a new page.
\<close>

fun exportLoop ::
  "real \<Rightarrow> (nat \<Rightarrow> 'img canvas option) \<Rightarrow> driverInfo \<Rightarrow> string \<Rightarrow>
   nat \<Rightarrow> day list \<Rightarrow> 'img pdf \<Rightarrow> 'img pdf" where
  "exportLoop pageWidth getElementById info currentDate i [] p = p"
| "exportLoop pageWidth getElementById info currentDate i (d # ds) p =
     (case getElementById i of
        None \<Rightarrow> exportLoop pageWidth getElementById info currentDate (Suc i) ds p
      | Some cv \<Rightarrow>
          exportLoop pageWidth getElementById info currentDate (Suc i) ds
            (foldl emit (if i > 0 then addPage p else p)
               (sheet pageWidth info currentDate d cv)))"

text \<open>
  \<^verbatim>\<open>handleDownloadPDF\<close>: a new document, the loop over all days, and the pages that
  \<^verbatim>\<open>pdf.save\<close> writes out.
\<close>

definition handleDownloadPDF ::
  "real \<Rightarrow> (nat \<Rightarrow> 'img canvas option) \<Rightarrow> day list \<Rightarrow> driverInfo \<Rightarrow> string \<Rightarrow>
   'img pdf_cmd list list" where
  "handleDownloadPDF pageWidth getElementById logDays info currentDate =
     pagesOf (exportLoop pageWidth getElementById info currentDate 0 logDays jsPDF)"

subsection \<open>The interactive planner (MapComponent.js)\<close>

text \<open>
  An activity drawn with the mouse carries two hours of the day instead of two instants;
  dragging to the left leaves \<^verbatim>\<open>endHour\<close> below \<^verbatim>\<open>startHour\<close>.
\<close>

record drawnActivity =
  d_status :: string
  startHour :: real
  endHour :: real

text \<open>
  \<^verbatim>\<open>calcHours\<close> of MapComponent.js (the name is taken by the sidebar's function): the
  same filter, a reduce that adds \<^verbatim>\<open>Math.max(a.endHour - a.startHour, 0)\<close>, and
  \<^verbatim>\<open>toFixed(1)\<close>. \<open>plannerHours\<close> is the number before it is printed.
\<close>

definition plannerHours :: "drawnActivity list \<Rightarrow> string \<Rightarrow> real" where
  "plannerHours acts st =
     foldl (\<lambda>sum a. sum + max (endHour a - startHour a) 0)
       0 (filter (\<lambda>a. d_status a = st) acts)"

definition calcHours_planner :: "drawnActivity list \<Rightarrow> string \<Rightarrow> string" where
  "calcHours_planner acts st = toFixed1 (plannerHours acts st)"

text \<open>
  The real-time tracker. Every two seconds the timer replaces the state by
  \<^verbatim>\<open>{elapsed: Math.min(prev.elapsed + 0.1, 70), remaining: Math.max(prev.remaining - 0.1, 0)}\<close>.
\<close>

record realTime =
  elapsed :: real
  remaining :: real

definition tick :: "realTime \<Rightarrow> realTime" where
  "tick prev =
     \<lparr>elapsed = min (elapsed prev + 1 / 10) 70,
      remaining = max (remaining prev - 1 / 10) 0\<rparr>"

text \<open>The state after the timer has fired \<open>n\<close> times.\<close>

fun ticks :: "nat \<Rightarrow> realTime \<Rightarrow> realTime" where
  "ticks 0 s = s"
| "ticks (Suc n) s = ticks n (tick s)"

section \<open>Theorems\<close>

subsection \<open>Helper facts about the reduce\<close>

lemma foldl_plus_sum_list:
  "foldl (\<lambda>acc a. acc + f a) z xs = z + sum_list (map f xs)" for z :: real
  by (induction xs arbitrary: z) (simp_all add: add.assoc)

lemma calcHours_sum_list:
  "calcHours acts st = sum_list (map durationHours (filter (\<lambda>a. a_status a = st) acts))"
proof -
  have "calcHours acts st =
      foldl (\<lambda>acc a. acc + durationHours a) 0 (filter (\<lambda>a. a_status a = st) acts)"
    by (simp add: calcHours_def durationHours_def Let_def)
  then show ?thesis
    by (simp add: foldl_plus_sum_list)
qed

lemma calcTotalHours_sum_list:
  "calcTotalHours acts st = sum_list (map durationHours (filter (\<lambda>a. a_status a = st) acts))"
proof -
  have "calcTotalHours acts st =
      foldl (\<lambda>acc a. acc + durationHours a) 0 (filter (\<lambda>a. a_status a = st) acts)"
    by (simp add: calcTotalHours_def durationHours_def)
  then show ?thesis
    by (simp add: foldl_plus_sum_list)
qed


subsection \<open>C1: aggregation is the per-status sum of the durations\<close>

lemma double_reduce_exact:
  "noRounding acc xs \<Longrightarrow>
     foldl (\<lambda>sum a. double (sum + double (double (real_of_int (a_end a - a_start a)) / 3600000)))
       acc xs = acc + sum_list (map durationHours xs)"
proof (induction xs arbitrary: acc)
  case Nil
  then show ?case by simp
next
  case (Cons a xs)
  let ?h = "real_of_int (a_end a - a_start a) / 3600000"
  from Cons.prems have exact: "double (real_of_int (a_end a - a_start a)) = real_of_int (a_end a - a_start a)"
    "double ?h = ?h" "double (acc + ?h) = acc + ?h" and rest: "noRounding (acc + ?h) xs"
    by (simp_all add: Let_def)
  have "foldl (\<lambda>sum a. double (sum + double (double (real_of_int (a_end a - a_start a)) / 3600000)))
      acc (a # xs)
      = foldl (\<lambda>sum a. double (sum + double (double (real_of_int (a_end a - a_start a)) / 3600000)))
      (acc + ?h) xs"
    by (simp only: foldl_Cons exact)
  also have "\<dots> = (acc + ?h) + sum_list (map durationHours xs)"
    by (rule Cons.IH [OF rest])
  also have "\<dots> = acc + sum_list (map durationHours (a # xs))"
    by (simp only: list.map sum_list.Cons durationHours_def add.assoc)
  finally show ?case .
qed

lemma calcHours_double_filter:
  "calcHours_double acts st =
     foldl (\<lambda>sum a. double (sum + double (double (real_of_int (a_end a - a_start a)) / 3600000)))
       0 (filter (\<lambda>a. a_status a = st) acts)"
  by (simp add: calcHours_double_def Let_def)

lemma calcHours_double_exact:
  "noRounding 0 (filter (\<lambda>a. a_status a = st) acts) \<Longrightarrow>
     calcHours_double acts st = sum_list (map durationHours (filter (\<lambda>a. a_status a = st) acts))"
  by (simp only: calcHours_double_filter double_reduce_exact)


lemma double_hours:
  "double 7200000 = 7200000"
  "double 5400000 = 5400000"
  "double 2 = 2"
  "double (3 / 2) = 3 / 2"
  "double (7 / 2) = 7 / 2"
  by (simp_all add: double_def ilog2.simps pow2_def roundTiesToEven_def Let_def)




subsection \<open>C9: the two aggregation functions agree\<close>

text \<open>
  C9. \<^verbatim>\<open>calcHours\<close> of the sidebar and \<^verbatim>\<open>calcTotalHours\<close> of the log canvas return the
  same value for every list of activities and every status; so the drive hours the
  sidebar prints for a day are the drive hours the export prints for it.
\<close>

theorem calcHours_eq_calcTotalHours:
  "calcHours acts st = calcTotalHours acts st
   \<and> toFixed1 (calcHours (activities d) ''Driving'') = driveHrs d"
  by (simp only: calcHours_sum_list calcTotalHours_sum_list driveHrs_def)

subsection \<open>C5: overlapping intervals are added, not merged\<close>

text \<open>
  C5. Two Driving intervals aggregate to the sum of their two durations whatever their
  position relative to each other; the day made of 01:00--03:00 and 02:00--04:00 has
  4 drive hours, not 3.
\<close>

theorem overlap_not_merged:
  "calcHours [\<lparr>a_status = ''Driving'', a_start = s1, a_end = e1\<rparr>,
              \<lparr>a_status = ''Driving'', a_start = s2, a_end = e2\<rparr>] ''Driving''
     = real_of_int (e1 - s1) / 3600000 + real_of_int (e2 - s2) / 3600000
   \<and> calcHours [\<lparr>a_status = ''Driving'', a_start = 1761958800000, a_end = 1761966000000\<rparr>,
                \<lparr>a_status = ''Driving'', a_start = 1761962400000, a_end = 1761969600000\<rparr>]
        ''Driving'' = 4
   \<and> calcHours [\<lparr>a_status = ''Driving'', a_start = 1761958800000, a_end = 1761966000000\<rparr>,
                \<lparr>a_status = ''Driving'', a_start = 1761962400000, a_end = 1761969600000\<rparr>]
        ''Driving'' \<noteq> 3"
  by (simp add: calcHours_def)

subsection \<open>C6: trip totals are the sums of the day totals\<close>




subsection \<open>C3: the 70-hour threshold is strict\<close>

text \<open>
  The bar of the summary turns red above 70 drive hours and not at 70; it looks at the
  drive hours only.
\<close>

lemma driveBarColor_red:
  "(driveBarColor h = ''#ff3333'') = (70 < h)"
  by (simp add: driveBarColor_def)

text \<open>
  C3. The warning "Exceeds 70-hour/8-day on-duty limit" is among the warnings exactly
  when drive hours plus on-duty hours exceed 70; it is then the only warning and the
  warning box shows it; at exactly 70 there is no warning and at 70.1 there is exactly
  this one.
\<close>

theorem compliance_threshold:
  "(''Exceeds 70-hour/8-day on-duty limit'' \<in> set (evaluate t n))
      = (70 < driveHours t + onDutyHours t)
   \<and> evaluate t n =
       (if 70 < driveHours t + onDutyHours t
        then [''Exceeds 70-hour/8-day on-duty limit''] else [])
   \<and> warningBox (evaluate t n) =
       (if 70 < driveHours t + onDutyHours t
        then Some [''Exceeds 70-hour/8-day on-duty limit''] else None)
   \<and> (driveHours t + onDutyHours t = 70 \<longrightarrow> evaluate t n = [])
   \<and> (driveHours t + onDutyHours t = 701 / 10 \<longrightarrow>
        evaluate t n = [''Exceeds 70-hour/8-day on-duty limit''])"
  by (simp add: evaluate_def warningBox_def)

text \<open>At 40 drive hours with 30 on-duty hours, and with 30.1 on-duty hours.\<close>

theorem compliance_threshold_witness:
  "driveHours \<lparr>driveHours = 40, onDutyHours = 30, offDutyHours = 10, sleeperHours = 8\<rparr>
     + onDutyHours \<lparr>driveHours = 40, onDutyHours = 30, offDutyHours = 10, sleeperHours = 8\<rparr> = 70
   \<and> evaluate \<lparr>driveHours = 40, onDutyHours = 30, offDutyHours = 10, sleeperHours = 8\<rparr> 8 = []
   \<and> driveHours \<lparr>driveHours = 40, onDutyHours = 301 / 10, offDutyHours = 10, sleeperHours = 8\<rparr>
     + onDutyHours \<lparr>driveHours = 40, onDutyHours = 301 / 10, offDutyHours = 10, sleeperHours = 8\<rparr>
       = 701 / 10
   \<and> evaluate \<lparr>driveHours = 40, onDutyHours = 301 / 10, offDutyHours = 10, sleeperHours = 8\<rparr> 8
       = [''Exceeds 70-hour/8-day on-duty limit'']"
proof -
  let ?at = "\<lparr>driveHours = 40, onDutyHours = 30, offDutyHours = 10, sleeperHours = 8\<rparr>"
  let ?over = "\<lparr>driveHours = 40, onDutyHours = 301 / 10, offDutyHours = 10, sleeperHours = 8\<rparr>"
  have a: "driveHours ?at + onDutyHours ?at = 70"
    by simp
  have b: "driveHours ?over + onDutyHours ?over = 701 / 10"
    by simp
  from compliance_threshold [of ?at 8] a have c: "evaluate ?at 8 = []"
    by blast
  from compliance_threshold [of ?over 8] b
  have d: "evaluate ?over 8 = [''Exceeds 70-hour/8-day on-duty limit'']"
    by blast
  from a b c d show ?thesis
    by blast
qed

subsection \<open>C10: the tracker stays within its bounds\<close>

lemma tick_keeps: "elapsed (tick s) \<le> 70 \<and> 0 \<le> remaining (tick s)"
  by (simp add: tick_def)

text \<open>
  C10. From a state with \<open>elapsed \<le> 70\<close> and \<open>remaining \<ge> 0\<close>, any number of ticks
  leaves \<open>elapsed\<close> at most 70 and \<open>remaining\<close> at least 0.
\<close>

theorem tracker_invariant:
  "elapsed s \<le> 70 \<Longrightarrow> 0 \<le> remaining s \<Longrightarrow>
     elapsed (ticks n s) \<le> 70 \<and> 0 \<le> remaining (ticks n s)"
proof (induction n arbitrary: s)
  case 0
  then show ?case by simp
next
  case (Suc n)
  have "elapsed (tick s) \<le> 70" and "0 \<le> remaining (tick s)"
    using tick_keeps [of s] by simp_all
  then show ?case
    using Suc.IH [of "tick s"] by simp
qed

text \<open>Three ticks from 69.9 elapsed and 0.05 remaining end at 70 and 0.\<close>

theorem tracker_invariant_witness:
  "elapsed \<lparr>elapsed = 699 / 10, remaining = 1 / 20\<rparr> \<le> 70
   \<and> 0 \<le> remaining \<lparr>elapsed = 699 / 10, remaining = 1 / 20\<rparr>
   \<and> elapsed (ticks (Suc (Suc (Suc 0))) \<lparr>elapsed = 699 / 10, remaining = 1 / 20\<rparr>) \<le> 70
   \<and> 0 \<le> remaining (ticks (Suc (Suc (Suc 0))) \<lparr>elapsed = 699 / 10, remaining = 1 / 20\<rparr>)
   \<and> ticks (Suc (Suc (Suc 0))) \<lparr>elapsed = 699 / 10, remaining = 1 / 20\<rparr>
       = \<lparr>elapsed = 70, remaining = 0\<rparr>"
  using tracker_invariant [of "\<lparr>elapsed = 699 / 10, remaining = 1 / 20\<rparr>" "Suc (Suc (Suc 0))"]
  by (simp add: tick_def)

subsection \<open>C2: one stroke per interval, also across midnight\<close>

lemma columns_drawActivity:
  "columns (drawActivity 1000 k a) = (hourOfDayUTC (a_start a), hourOfDayUTC (a_end a))"
  by (simp add: columns_def drawActivity_def Let_def)

lemma strokes_drawCanvas:
  "strokes (drawCanvas acts img) =
     map (drawActivity 1000 (naturalHeight img / naturalWidth img * 1000 / naturalHeight img)) acts"
  by (simp add: drawCanvas_def Let_def)

lemma colors_nonempty: "getProp colors st = Own c \<Longrightarrow> c \<noteq> []"
  by (auto simp add: getProp_def colors_def split: if_splits)

lemma strokeStyle_drawActivity:
  "strokeStyle (drawActivity w k a) =
     (case getProp colors (a_status a) of
        Own c \<Rightarrow> Colour c | Inherited \<Rightarrow> Member | Undefined \<Rightarrow> Colour ''#000'')"
  by (simp add: drawActivity_def Let_def colors_nonempty split: lookup.splits)

text \<open>
  An OnDuty interval from 23:00 on 2025-11-01 to 01:00 on 2025-11-02: its end column, 1,
  is below its start column, 23. The canvas gets one stroke, from column 23 back to
  column 1, and not the two cells 23--24 and 0--1.
\<close>

theorem midnight_not_split:
  "hourOfDayUTC 1762045200000 < hourOfDayUTC 1762038000000
   \<and> map columns (strokes (drawCanvas
        [\<lparr>a_status = ''OnDuty'', a_start = 1762038000000, a_end = 1762045200000\<rparr>]
        \<lparr>naturalWidth = 2000, naturalHeight = 400\<rparr>)) = [(23, 1)]
   \<and> map columns (strokes (drawCanvas
        [\<lparr>a_status = ''OnDuty'', a_start = 1762038000000, a_end = 1762045200000\<rparr>]
        \<lparr>naturalWidth = 2000, naturalHeight = 400\<rparr>)) \<noteq> [(23, 24), (0, 1)]"
  by (simp add: strokes_drawCanvas columns_drawActivity hourOfDayUTC_def getUTCHours_def
      getUTCMinutes_def)

text \<open>
  C2, amended. The projection draws exactly one stroke per interval, in the order of the
  activities, from the column of the start to the column of the end; this holds whether
  or not the end column is below the start column. The stroke style it assigns is the
  colour the table has for the interval's status, black for a status that reads as
  undefined, and, for a status that names a member every object inherits (such as
  "constructor"), that member, which is no colour.
\<close>

theorem one_stroke_per_interval:
  "map columns (strokes (drawCanvas acts img))
     = map (\<lambda>a. (hourOfDayUTC (a_start a), hourOfDayUTC (a_end a))) acts
   \<and> map strokeStyle (strokes (drawCanvas acts img))
     = map (\<lambda>a. case getProp colors (a_status a) of
                   Own c \<Rightarrow> Colour c | Inherited \<Rightarrow> Member | Undefined \<Rightarrow> Colour ''#000'') acts
   \<and> length (strokes (drawCanvas acts img)) = length acts"
proof (intro conjI)
  show "map columns (strokes (drawCanvas acts img))
     = map (\<lambda>a. (hourOfDayUTC (a_start a), hourOfDayUTC (a_end a))) acts"
    by (simp add: strokes_drawCanvas columns_drawActivity)
next
  show "map strokeStyle (strokes (drawCanvas acts img))
     = map (\<lambda>a. case getProp colors (a_status a) of
                   Own c \<Rightarrow> Colour c | Inherited \<Rightarrow> Member | Undefined \<Rightarrow> Colour ''#000'') acts"
    by (simp add: strokes_drawCanvas strokeStyle_drawActivity)
next
  show "length (strokes (drawCanvas acts img)) = length acts"
    by (simp add: strokes_drawCanvas)
qed

subsection \<open>C4: an unknown status falls back to the OffDuty lane\<close>

lemma lane_unknown:
  "st \<notin> set canonicalStatuses \<Longrightarrow> st \<notin> set objectPrototypeKeys \<Longrightarrow>
     getProp statusY st = Undefined \<and> getProp colors st = Undefined"
  by (simp add: getProp_def canonicalStatuses_def statusY_def colors_def)

lemma lane_inherited:
  "st \<in> set objectPrototypeKeys \<Longrightarrow>
     getProp statusY st = Inherited \<and> getProp colors st = Inherited"
  by (auto simp add: getProp_def objectPrototypeKeys_def statusY_def colors_def)

lemma lane_known:
  "st \<in> set canonicalStatuses \<Longrightarrow>
     \<exists>v c. getProp statusY st = Own v \<and> v \<noteq> 0 \<and> getProp colors st = Own c \<and> c \<noteq> []"
  by (auto simp add: getProp_def canonicalStatuses_def statusY_def colors_def)

lemma calcHours_Cons:
  "calcHours (a # acts) st = (if a_status a = st then durationHours a else 0) + calcHours acts st"
  by (simp add: calcHours_sum_list)

text \<open>
  An interval with the status "Resting", which is none of the four, is not rejected: on
  a sheet drawn at scale 1 it is stroked at height 162, the lane of OffDuty, exactly
  where the same interval with status OffDuty is stroked.
\<close>

theorem unknown_status_drawn_as_OffDuty:
  "''Resting'' \<notin> set canonicalStatuses
   \<and> map lane (strokes (drawCanvas
        [\<lparr>a_status = ''Resting'', a_start = 1761958800000, a_end = 1761966000000\<rparr>]
        \<lparr>naturalWidth = 1000, naturalHeight = 200\<rparr>))
     = map lane (strokes (drawCanvas
        [\<lparr>a_status = ''OffDuty'', a_start = 1761958800000, a_end = 1761966000000\<rparr>]
        \<lparr>naturalWidth = 1000, naturalHeight = 200\<rparr>))
   \<and> map lane (strokes (drawCanvas
        [\<lparr>a_status = ''Resting'', a_start = 1761958800000, a_end = 1761966000000\<rparr>]
        \<lparr>naturalWidth = 1000, naturalHeight = 200\<rparr>)) = [Some 162]"
  by (simp add: canonicalStatuses_def strokes_drawCanvas drawActivity_def statusY_def Let_def
      lane_def getProp_def objectPrototypeKeys_def)

text \<open>
  C4, amended. The front end has no validation step. Drawing never rejects an interval
  (one stroke per activity). An interval with one of the four statuses is stroked on the
  lane and in the colour the tables give for it. An interval whose status is none of the
  four and is not the name of a member every object inherits is stroked on the OffDuty
  lane, 162 times the scale, in black. An interval whose status is such a name
  ("constructor", "toString", "__proto__" and the like) takes neither fallback: its
  height is not a number and the value assigned as its stroke style is no colour.
  Aggregation does not coerce a status: an interval counts only under the status it
  carries.
\<close>

theorem status_fallback:
  "(a_status a \<notin> set canonicalStatuses \<and> a_status a \<notin> set objectPrototypeKeys \<longrightarrow>
      snd (moveTo (drawActivity w k a)) = Some (162 * k)
      \<and> snd (lineTo (drawActivity w k a)) = Some (162 * k)
      \<and> strokeStyle (drawActivity w k a) = Colour ''#000'')
   \<and> (a_status a \<in> set objectPrototypeKeys \<longrightarrow>
      snd (moveTo (drawActivity w k a)) = None
      \<and> snd (lineTo (drawActivity w k a)) = None
      \<and> strokeStyle (drawActivity w k a) = Member)
   \<and> (a_status a \<in> set canonicalStatuses \<longrightarrow>
      (\<exists>v c. map_of statusY (a_status a) = Some v \<and> map_of colors (a_status a) = Some c
         \<and> snd (moveTo (drawActivity w k a)) = Some (v * k)
         \<and> snd (lineTo (drawActivity w k a)) = Some (v * k)
         \<and> strokeStyle (drawActivity w k a) = Colour c))
   \<and> length (strokes (drawCanvas acts img)) = length acts
   \<and> (a_status a \<noteq> st \<longrightarrow> calcHours (a # acts) st = calcHours acts st)"
proof (intro conjI impI)
  assume "a_status a \<notin> set canonicalStatuses \<and> a_status a \<notin> set objectPrototypeKeys"
  then have "getProp statusY (a_status a) = Undefined \<and> getProp colors (a_status a) = Undefined"
    by (simp add: lane_unknown)
  then show "snd (moveTo (drawActivity w k a)) = Some (162 * k)"
    and "snd (lineTo (drawActivity w k a)) = Some (162 * k)"
    and "strokeStyle (drawActivity w k a) = Colour ''#000''"
    by (simp_all add: drawActivity_def Let_def)
next
  assume "a_status a \<in> set objectPrototypeKeys"
  from lane_inherited [OF this]
  show "snd (moveTo (drawActivity w k a)) = None"
    and "snd (lineTo (drawActivity w k a)) = None"
    and "strokeStyle (drawActivity w k a) = Member"
    by (simp_all add: drawActivity_def Let_def)
next
  assume "a_status a \<in> set canonicalStatuses"
  from lane_known [OF this] obtain v c where
    own: "getProp statusY (a_status a) = Own v" "v \<noteq> 0"
      "getProp colors (a_status a) = Own c" "c \<noteq> []"
    by blast
  then have "map_of statusY (a_status a) = Some v" and "map_of colors (a_status a) = Some c"
    by (auto simp add: getProp_def split: option.splits if_splits)
  with own show "\<exists>v c. map_of statusY (a_status a) = Some v \<and> map_of colors (a_status a) = Some c
         \<and> snd (moveTo (drawActivity w k a)) = Some (v * k)
         \<and> snd (lineTo (drawActivity w k a)) = Some (v * k)
         \<and> strokeStyle (drawActivity w k a) = Colour c"
    by (simp add: drawActivity_def Let_def)
next
  show "length (strokes (drawCanvas acts img)) = length acts"
    by (simp add: strokes_drawCanvas)
next
  assume "a_status a \<noteq> st"
  then show "calcHours (a # acts) st = calcHours acts st"
    by (simp add: calcHours_Cons)
qed

text \<open>
  At a Resting interval, at an interval with the status "constructor" and at a Driving
  interval, on a canvas 1000 wide at scale 1.
\<close>

theorem status_fallback_witness:
  "''Resting'' \<notin> set canonicalStatuses \<and> ''Resting'' \<notin> set objectPrototypeKeys
   \<and> snd (moveTo (drawActivity 1000 1
         \<lparr>a_status = ''Resting'', a_start = 1761958800000, a_end = 1761966000000\<rparr>)) = Some 162
   \<and> strokeStyle (drawActivity 1000 1
         \<lparr>a_status = ''Resting'', a_start = 1761958800000, a_end = 1761966000000\<rparr>)
       = Colour ''#000''
   \<and> ''constructor'' \<in> set objectPrototypeKeys
   \<and> snd (moveTo (drawActivity 1000 1
         \<lparr>a_status = ''constructor'', a_start = 1761958800000, a_end = 1761966000000\<rparr>)) = None
   \<and> strokeStyle (drawActivity 1000 1
         \<lparr>a_status = ''constructor'', a_start = 1761958800000, a_end = 1761966000000\<rparr>)
       = Member
   \<and> ''Driving'' \<in> set canonicalStatuses
   \<and> snd (moveTo (drawActivity 1000 1
         \<lparr>a_status = ''Driving'', a_start = 1761958800000, a_end = 1761966000000\<rparr>)) = Some 84
   \<and> strokeStyle (drawActivity 1000 1
         \<lparr>a_status = ''Driving'', a_start = 1761958800000, a_end = 1761966000000\<rparr>)
       = Colour ''#1E90FF''
   \<and> ''Resting'' \<noteq> ''OffDuty''
   \<and> calcHours [\<lparr>a_status = ''Resting'', a_start = 1761958800000, a_end = 1761966000000\<rparr>]
         ''OffDuty'' = calcHours [] ''OffDuty''"
proof -
  let ?r = "\<lparr>a_status = ''Resting'', a_start = 1761958800000, a_end = 1761966000000\<rparr>"
  let ?i = "\<lparr>a_status = ''constructor'', a_start = 1761958800000, a_end = 1761966000000\<rparr>"
  let ?d = "\<lparr>a_status = ''Driving'', a_start = 1761958800000, a_end = 1761966000000\<rparr>"
  have unknown: "a_status ?r \<notin> set canonicalStatuses \<and> a_status ?r \<notin> set objectPrototypeKeys"
    by (simp add: canonicalStatuses_def objectPrototypeKeys_def)
  have inherited: "a_status ?i \<in> set objectPrototypeKeys"
    by (simp add: objectPrototypeKeys_def)
  have known: "a_status ?d \<in> set canonicalStatuses"
    by (simp add: canonicalStatuses_def)
  have other: "a_status ?r \<noteq> ''OffDuty''"
    by simp
  note r = status_fallback [where a = ?r and w = 1000 and k = 1 and acts = "[]"
      and st = "''OffDuty''"]
  note i = status_fallback [where a = ?i and w = 1000 and k = 1 and acts = "[]"
      and st = "''OffDuty''"]
  note d = status_fallback [where a = ?d and w = 1000 and k = 1 and acts = "[]"
      and st = "''OffDuty''"]
  from r unknown have r1: "snd (moveTo (drawActivity 1000 1 ?r)) = Some 162"
    and r2: "strokeStyle (drawActivity 1000 1 ?r) = Colour ''#000''"
    by simp_all
  from r other have r3: "calcHours [?r] ''OffDuty'' = calcHours [] ''OffDuty''"
    by blast
  from i inherited have i1: "snd (moveTo (drawActivity 1000 1 ?i)) = None"
    and i2: "strokeStyle (drawActivity 1000 1 ?i) = Member"
    by blast+
  from d known obtain v c where
    "map_of statusY (a_status ?d) = Some v" "map_of colors (a_status ?d) = Some c"
    "snd (moveTo (drawActivity 1000 1 ?d)) = Some (v * 1)"
    "strokeStyle (drawActivity 1000 1 ?d) = Colour c"
    by blast
  then have d1: "snd (moveTo (drawActivity 1000 1 ?d)) = Some 84"
    and d2: "strokeStyle (drawActivity 1000 1 ?d) = Colour ''#1E90FF''"
    by (simp_all add: statusY_def colors_def)
  from unknown inherited known r1 r2 r3 i1 i2 d1 d2 show ?thesis
    by simp
qed

subsection \<open>C7: a reversed interval makes a total negative\<close>

text \<open>
  The planner's own \<^verbatim>\<open>calcHours\<close> cannot go below 0, because it adds
  \<^verbatim>\<open>Math.max(endHour - startHour, 0)\<close>; the sidebar's and the export's functions are
  non-negative only when no interval ends before it starts.
\<close>

lemma plannerHours_nonneg: "0 \<le> plannerHours acts st"
proof -
  have "plannerHours acts st =
      sum_list (map (\<lambda>a. max (endHour a - startHour a) 0) (filter (\<lambda>a. d_status a = st) acts))"
    by (simp add: plannerHours_def foldl_plus_sum_list)
  then show ?thesis
    by (auto intro!: sum_list_nonneg)
qed

lemma calcHours_nonneg_valid:
  "\<forall>a \<in> set acts. a_start a \<le> a_end a \<Longrightarrow> 0 \<le> calcHours acts st"
  by (auto intro!: sum_list_nonneg simp add: calcHours_sum_list durationHours_def)

text \<open>
  C7. A day whose only activity is a Driving interval from 02:00 back to 01:00 on
  2025-11-01 has \<open>-1\<close> drive hours in the sidebar and in the export; the same interval in
  the planner counts 0 hours and prints "0.0".
\<close>

theorem negative_total:
  "calcHours [\<lparr>a_status = ''Driving'', a_start = 1761962400000, a_end = 1761958800000\<rparr>]
      ''Driving'' = - 1
   \<and> calcTotalHours [\<lparr>a_status = ''Driving'', a_start = 1761962400000, a_end = 1761958800000\<rparr>]
      ''Driving'' = - 1
   \<and> plannerHours [\<lparr>d_status = ''Driving'', startHour = 2, endHour = 1\<rparr>] ''Driving'' = 0
   \<and> calcHours_planner [\<lparr>d_status = ''Driving'', startHour = 2, endHour = 1\<rparr>] ''Driving''
       = ''0.0''"
  by (simp add: calcHours_def calcTotalHours_def calcHours_planner_def plannerHours_def
      toFixed1_def digits.simps)

subsection \<open>C8: a report is a function of the trip\<close>






text \<open>
  The export of a trip of one day, two hours of Driving, on a page 800 wide with a
  canvas of 1000 by 200, at any reading of the clock: the reading is in the last line.
\<close>

lemma export_one_day:
  "handleDownloadPDF 800
     (map_of [(0, \<lparr>c_width = 1000, c_height = 200, c_picture = ()\<rparr>)])
     [\<lparr>date = ''2025-11-01'', activities =
        [\<lparr>a_status = ''Driving'', a_start = 1761958800000, a_end = 1761966000000\<rparr>]\<rparr>]
     \<lparr>di_name = Some ''Jesse Kidula'', di_company = None\<rparr> now
   = [[SetFontSize 14, TextCentered ''FMCSA DRIVER DAILY LOG SHEET'' 400 30,
       SetFontSize 10, Text ''Driver: Jesse Kidula'' 20 50,
       Text ''Company: '' 20 65, Text ''Date: 2025-11-01'' 20 80,
       AddImage () 0 100 800 160, Text ''Driving Hours: 2.0 hrs'' 20 280,
       Text ''On Duty: 0.0 hrs'' 220 280, Text ''Off Duty: 0.0 hrs'' 420 280,
       Line 20 290 220 290, Text ''Driver Signature'' 20 305, SetFontSize 8,
       Text (''Generated: '' @ now) 640 305]]"
  by (simp add: handleDownloadPDF_def pagesOf_def jsPDF_def emit_def sheet_def Let_def
      driveHrs_def onDutyHrs_def offDutyHrs_def toFixed1_def digits.simps calcTotalHours_def)







subsection \<open>The examples of C5 and C7 in double arithmetic\<close>

text \<open>
  Whole hours are doubles, so the figures of the two examples are the same when every
  operation is rounded: the overlapping Driving intervals give 4 hours, the reversed
  interval gives \<open>-1\<close>.
\<close>

lemma double_whole_hours:
  "double 4 = 4"
  "double (- 3600000) = - 3600000"
  "double (- 1) = - 1"
  by (simp_all add: double_def ilog2.simps pow2_def roundTiesToEven_def Let_def)

lemma overlap_in_doubles:
  "calcHours_double
     [\<lparr>a_status = ''Driving'', a_start = 1761958800000, a_end = 1761966000000\<rparr>,
      \<lparr>a_status = ''Driving'', a_start = 1761962400000, a_end = 1761969600000\<rparr>] ''Driving'' = 4"
proof -
  let ?acts = "[\<lparr>a_status = ''Driving'', a_start = 1761958800000, a_end = 1761966000000\<rparr>,
      \<lparr>a_status = ''Driving'', a_start = 1761962400000, a_end = 1761969600000\<rparr>]"
  have "noRounding 0 (filter (\<lambda>a. a_status a = ''Driving'') ?acts)"
    by (simp add: double_hours double_whole_hours)
  then have "calcHours_double ?acts ''Driving''
      = sum_list (map durationHours (filter (\<lambda>a. a_status a = ''Driving'') ?acts))"
    by (rule calcHours_double_exact)
  then show ?thesis
    by (simp add: durationHours_def)
qed

lemma reversed_in_doubles:
  "calcHours_double
     [\<lparr>a_status = ''Driving'', a_start = 1761962400000, a_end = 1761958800000\<rparr>] ''Driving''
     = - 1"
proof -
  let ?acts = "[\<lparr>a_status = ''Driving'', a_start = 1761962400000, a_end = 1761958800000\<rparr>]"
  have "noRounding 0 (filter (\<lambda>a. a_status a = ''Driving'') ?acts)"
    by (simp add: double_whole_hours)
  then have "calcHours_double ?acts ''Driving''
      = sum_list (map durationHours (filter (\<lambda>a. a_status a = ''Driving'') ?acts))"
    by (rule calcHours_double_exact)
  then show ?thesis
    by (simp add: durationHours_def)
qed

end
